theory Spec2Isabelle
  imports Main "HOL-Library.Word"
begin

section \<open>Data model\<close>

text \<open>
  The two source files (\<^verbatim>\<open>tprs.go\<close> and the discovery client) are thin call sites over
  a dispatcher and a watch decoder that live elsewhere in the package. Everything they call
  there is a parameter of the model: the methods of \<^verbatim>\<open>*Client\<close> are the fields of the
  record \<open>Client\<close>, the methods of \<^verbatim>\<open>*watcher\<close> and the library functions
  \<^verbatim>\<open>proto.Unmarshal\<close> and \<^verbatim>\<open>path.Join\<close> are the fields of the record \<open>deps\<close>.
  The state of the outside world (the network, the open streams) is a value of type \<open>'s\<close>
  that every such call takes and returns. Each operation of the model returns a triple:
  what the Go function returns, the list of outside calls it made, in order, and the
  state it leaves.
\<close>

type_synonym byte = "8 word"

text \<open>The two package-level codec values.\<close>

datatype codec = jsonCodec | pbCodec

text \<open>
  A Go \<^verbatim>\<open>error\<close>: either made here by \<^verbatim>\<open>errors.New\<close>, or a value \<open>foreign x\<close> made by a
  collaborator. The nil error is \<open>None\<close> of \<open>'x error option\<close>.
\<close>

datatype 'x error = errors_New string | foreign 'x

text \<open>A nil pointer dereference ends the call with a panic.\<close>

datatype panic = nil_dereference

text \<open>One outside call, with the arguments that matter to the caller's contract.\<close>

datatype call =
    create_call codec string string
  | get_call codec string
  | delete_call codec string
  | watch_call string
  | next_call
  | Close_call
  | Unmarshal_call "byte list"
  | Println_call "byte list"

text \<open>The codec a dispatcher call was given; the other calls take none.\<close>

fun call_codec :: "call \<Rightarrow> codec option" where
  "call_codec (create_call cd m u) = Some cd"
| "call_codec (get_call cd u) = Some cd"
| "call_codec (delete_call cd u) = Some cd"
| "call_codec (watch_call u) = None"
| "call_codec next_call = None"
| "call_codec Close_call = None"
| "call_codec (Unmarshal_call b) = None"
| "call_codec (Println_call b) = None"

text \<open>
  The methods of \<^verbatim>\<open>*Client\<close> used by the two files. \<open>'resp\<close> is the value behind the
  response pointer: \<open>get\<close> and \<open>create\<close> return the value they leave there.
  \<open>'w\<close> is a \<^verbatim>\<open>*watcher\<close> (nil included), \<open>'req\<close> a request body.
\<close>

record ('ctx, 'req, 'resp, 'w, 's, 'x) Client =
  urlFor :: "string \<Rightarrow> string \<Rightarrow> string \<Rightarrow> string \<Rightarrow> string \<Rightarrow> string"
  urlForPath :: "string \<Rightarrow> string"
  create :: "'ctx \<Rightarrow> codec \<Rightarrow> string \<Rightarrow> string \<Rightarrow> 'req \<Rightarrow> 'resp \<Rightarrow> 's
               \<Rightarrow> ('x error option \<times> 'resp) \<times> 's"
  get :: "'ctx \<Rightarrow> codec \<Rightarrow> string \<Rightarrow> 'resp \<Rightarrow> 's \<Rightarrow> ('x error option \<times> 'resp) \<times> 's"
  delete :: "'ctx \<Rightarrow> codec \<Rightarrow> string \<Rightarrow> 's \<Rightarrow> 'x error option \<times> 's"
  watch :: "'ctx \<Rightarrow> string \<Rightarrow> 's \<Rightarrow> ('w \<times> 'x error option) \<times> 's"

text \<open>The envelope \<^verbatim>\<open>runtime.Unknown\<close>: its raw payload bytes (and whatever else it has).\<close>

record Unknown =
  Raw :: "byte list"

text \<open>
  The methods of \<^verbatim>\<open>*watcher\<close> and the two library functions. \<open>'ev\<close> is a
  \<^verbatim>\<open>versioned.Event\<close>, \<open>'r\<close> an \<^verbatim>\<open>unversioned.APIResource\<close>, whose zero value
  (\<^verbatim>\<open>new(unversioned.APIResource)\<close>) is \<open>new_APIResource\<close>.
\<close>

record ('w, 'ev, 'r, 's, 'x) deps =
  watcher_next :: "'w \<Rightarrow> 's \<Rightarrow> ('ev option \<times> Unknown option \<times> 'x error option) \<times> 's"
  watcher_Close :: "'w \<Rightarrow> 's \<Rightarrow> 'x error option \<times> 's"
  proto_Unmarshal :: "byte list \<Rightarrow> 'r \<Rightarrow> 'x error option \<times> 'r"
  new_APIResource :: "'r"
  path_Join :: "string list \<Rightarrow> string"

record Version =
  Major :: string
  Minor :: string
  GitVersion :: string
  GitCommit :: string
  GitTreeState :: string
  BuildDate :: string
  GoVersion :: string
  Compiler :: string
  Platform :: string

text \<open>\<^verbatim>\<open>var v Version\<close>: every field the empty string.\<close>

definition zero_Version :: Version where
  "zero_Version = \<lparr>Major = [], Minor = [], GitVersion = [], GitCommit = [],
     GitTreeState = [], BuildDate = [], GoVersion = [], Compiler = [], Platform = []\<rparr>"

record ('ctx, 'req, 'resp, 'w, 's, 'x) ThirdPartyResources =
  tpr_c :: "('ctx, 'req, 'resp, 'w, 's, 'x) Client"
  tpr_apiGroup :: string
  tpr_apiVersion :: string

record ('ctx, 'req, 'resp, 'w, 's, 'x) Discovery =
  client :: "('ctx, 'req, 'resp, 'w, 's, 'x) Client"

record 'w ThirdPartyResourceWatcher =
  tw_watcher :: 'w

record 'w APIWatcher =
  aw_watcher :: 'w

text \<open>The three parts of what an operation of the model returns.\<close>

definition returned :: "'a \<times> call list \<times> 's \<Rightarrow> 'a" where
  "returned x = fst x"

definition calls :: "'a \<times> call list \<times> 's \<Rightarrow> call list" where
  "calls x = fst (snd x)"

definition state_after :: "'a \<times> call list \<times> 's \<Rightarrow> 's" where
  "state_after x = snd (snd x)"

section \<open>The third party resources client\<close>

definition checkResource :: "string \<Rightarrow> string \<Rightarrow> string \<Rightarrow> string \<Rightarrow> string \<Rightarrow> 'x error option" where
  "checkResource apiGroup apiVersion resource namespace name =
     (if apiGroup = [] then Some (errors_New ''no api group provided'')
      else if apiVersion = [] then Some (errors_New ''no api version provided'')
      else if resource = [] then Some (errors_New ''no resource version provided'')
      else if namespace = [] then Some (errors_New ''no namespace provided'')
      else if name = [] then Some (errors_New ''no resource name provided'')
      else None)"

definition ThirdPartyResources_Create ::
  "('ctx, 'req, 'resp, 'w, 's, 'x) ThirdPartyResources \<Rightarrow> 'ctx \<Rightarrow> string \<Rightarrow> string \<Rightarrow> 'req \<Rightarrow> 'resp \<Rightarrow> 's
     \<Rightarrow> ('x error option \<times> 'resp) \<times> call list \<times> 's" where
  "ThirdPartyResources_Create t ctx resource namespace req resp s =
     (case checkResource (tpr_apiGroup t) (tpr_apiVersion t) resource namespace ''not required'' of
        Some err \<Rightarrow> ((Some err, resp), [], s)
      | None \<Rightarrow>
          (let url = urlFor (tpr_c t) (tpr_apiGroup t) (tpr_apiVersion t) namespace resource []
           in case create (tpr_c t) ctx jsonCodec ''POST'' url req resp s of
                (r, s') \<Rightarrow> (r, [create_call jsonCodec ''POST'' url], s')))"

definition ThirdPartyResources_Update ::
  "('ctx, 'req, 'resp, 'w, 's, 'x) ThirdPartyResources \<Rightarrow> 'ctx \<Rightarrow> string \<Rightarrow> string \<Rightarrow> string \<Rightarrow> 'req \<Rightarrow> 'resp \<Rightarrow> 's
     \<Rightarrow> ('x error option \<times> 'resp) \<times> call list \<times> 's" where
  "ThirdPartyResources_Update t ctx resource namespace name req resp s =
     (case checkResource (tpr_apiGroup t) (tpr_apiVersion t) resource namespace ''not required'' of
        Some err \<Rightarrow> ((Some err, resp), [], s)
      | None \<Rightarrow>
          (let url = urlFor (tpr_c t) (tpr_apiGroup t) (tpr_apiVersion t) namespace resource name
           in case create (tpr_c t) ctx jsonCodec ''PUT'' url req resp s of
                (r, s') \<Rightarrow> (r, [create_call jsonCodec ''PUT'' url], s')))"

definition ThirdPartyResources_Get ::
  "('ctx, 'req, 'resp, 'w, 's, 'x) ThirdPartyResources \<Rightarrow> 'ctx \<Rightarrow> string \<Rightarrow> string \<Rightarrow> string \<Rightarrow> 'resp \<Rightarrow> 's
     \<Rightarrow> ('x error option \<times> 'resp) \<times> call list \<times> 's" where
  "ThirdPartyResources_Get t ctx resource namespace name resp s =
     (case checkResource (tpr_apiGroup t) (tpr_apiVersion t) resource namespace name of
        Some err \<Rightarrow> ((Some err, resp), [], s)
      | None \<Rightarrow>
          (let url = urlFor (tpr_c t) (tpr_apiGroup t) (tpr_apiVersion t) namespace resource name
           in case get (tpr_c t) ctx jsonCodec url resp s of
                (r, s') \<Rightarrow> (r, [get_call jsonCodec url], s')))"

definition ThirdPartyResources_Delete ::
  "('ctx, 'req, 'resp, 'w, 's, 'x) ThirdPartyResources \<Rightarrow> 'ctx \<Rightarrow> string \<Rightarrow> string \<Rightarrow> string \<Rightarrow> 's
     \<Rightarrow> 'x error option \<times> call list \<times> 's" where
  "ThirdPartyResources_Delete t ctx resource namespace name s =
     (case checkResource (tpr_apiGroup t) (tpr_apiVersion t) resource namespace name of
        Some err \<Rightarrow> (Some err, [], s)
      | None \<Rightarrow>
          (let url = urlFor (tpr_c t) (tpr_apiGroup t) (tpr_apiVersion t) namespace resource name
           in case delete (tpr_c t) ctx jsonCodec url s of
                (r, s') \<Rightarrow> (r, [delete_call jsonCodec url], s')))"

definition ThirdPartyResources_List ::
  "('ctx, 'req, 'resp, 'w, 's, 'x) ThirdPartyResources \<Rightarrow> 'ctx \<Rightarrow> string \<Rightarrow> string \<Rightarrow> 'resp \<Rightarrow> 's
     \<Rightarrow> ('x error option \<times> 'resp) \<times> call list \<times> 's" where
  "ThirdPartyResources_List t ctx resource namespace resp s =
     (case checkResource (tpr_apiGroup t) (tpr_apiVersion t) resource namespace ''name not required'' of
        Some err \<Rightarrow> ((Some err, resp), [], s)
      | None \<Rightarrow>
          (let url = urlFor (tpr_c t) (tpr_apiGroup t) (tpr_apiVersion t) namespace resource []
           in case get (tpr_c t) ctx jsonCodec url resp s of
                (r, s') \<Rightarrow> (r, [get_call jsonCodec url], s')))"

text \<open>
  \<open>Next\<close> of the third party watcher: the typed decode is commented out in the source,
  the raw bytes are printed and the object returned is the nil \<^verbatim>\<open>interface{}\<close>.
  Reading \<^verbatim>\<open>unknown.Raw\<close> through a nil \<^verbatim>\<open>unknown\<close> panics.
\<close>

definition ThirdPartyResourceWatcher_Next ::
  "('w, 'ev, 'r, 's, 'x) deps \<Rightarrow> 'w ThirdPartyResourceWatcher \<Rightarrow> 's
     \<Rightarrow> (panic + ('ev option \<times> 'o option \<times> 'x error option)) \<times> call list \<times> 's" where
  "ThirdPartyResourceWatcher_Next D w s =
     (case watcher_next D (tw_watcher w) s of
        ((event, unknown, err), s') \<Rightarrow>
          (case err of
             Some e \<Rightarrow> (Inr (None, None, Some e), [next_call], s')
           | None \<Rightarrow>
               (case unknown of
                  None \<Rightarrow> (Inl nil_dereference, [next_call], s')
                | Some u \<Rightarrow> (Inr (event, None, None), [next_call, Println_call (Raw u)], s'))))"

definition ThirdPartyResourceWatcher_Close ::
  "('w, 'ev, 'r, 's, 'x) deps \<Rightarrow> 'w ThirdPartyResourceWatcher \<Rightarrow> 's \<Rightarrow> 'x error option \<times> call list \<times> 's" where
  "ThirdPartyResourceWatcher_Close D w s =
     (case watcher_Close D (tw_watcher w) s of (r, s') \<Rightarrow> (r, [Close_call], s'))"

definition ThirdPartyResources_Watch ::
  "('ctx, 'req, 'resp, 'w, 's, 'x) ThirdPartyResources \<Rightarrow> 'ctx \<Rightarrow> string \<Rightarrow> string \<Rightarrow> 's
     \<Rightarrow> ('w ThirdPartyResourceWatcher option \<times> 'x error option) \<times> call list \<times> 's" where
  "ThirdPartyResources_Watch t ctx resource namespace s =
     (case checkResource (tpr_apiGroup t) (tpr_apiVersion t) resource namespace ''name not required'' of
        Some err \<Rightarrow> ((None, Some err), [], s)
      | None \<Rightarrow>
          (let url = urlFor (tpr_c t) (tpr_apiGroup t) (tpr_apiVersion t) namespace resource []
           in case watch (tpr_c t) ctx url s of
                ((watcher, err), s') \<Rightarrow>
                  (case err of
                     Some e \<Rightarrow> ((None, Some e), [watch_call url], s')
                   | None \<Rightarrow> ((Some \<lparr>tw_watcher = watcher\<rparr>, None), [watch_call url], s'))))"

section \<open>The discovery client\<close>

text \<open>
  Each operation declares its response value (\<^verbatim>\<open>var groups unversioned.APIGroupList\<close>),
  hands its address to \<open>get\<close> and returns that address on success. The response types
  other than \<open>Version\<close> are generated code, so their zero value is the argument \<open>zero\<close>.
\<close>

definition Discovery_Version ::
  "('ctx, 'req, Version, 'w, 's, 'x) Discovery \<Rightarrow> 'ctx \<Rightarrow> 's
     \<Rightarrow> (Version option \<times> 'x error option) \<times> call list \<times> 's" where
  "Discovery_Version d ctx s =
     (let url = urlForPath (client d) ''version''
      in case get (client d) ctx jsonCodec url zero_Version s of
           ((err, v), s') \<Rightarrow>
             (case err of
                Some e \<Rightarrow> ((None, Some e), [get_call jsonCodec url], s')
              | None \<Rightarrow> ((Some v, None), [get_call jsonCodec url], s')))"

definition Discovery_APIGroups ::
  "('ctx, 'req, 'resp, 'w, 's, 'x) Discovery \<Rightarrow> 'resp \<Rightarrow> 'ctx \<Rightarrow> 's
     \<Rightarrow> ('resp option \<times> 'x error option) \<times> call list \<times> 's" where
  "Discovery_APIGroups d zero ctx s =
     (let url = urlForPath (client d) ''apis''
      in case get (client d) ctx pbCodec url zero s of
           ((err, groups), s') \<Rightarrow>
             (case err of
                Some e \<Rightarrow> ((None, Some e), [get_call pbCodec url], s')
              | None \<Rightarrow> ((Some groups, None), [get_call pbCodec url], s')))"

definition Discovery_APIGroup ::
  "('w, 'ev, 'r, 's, 'x) deps \<Rightarrow> ('ctx, 'req, 'resp, 'w, 's, 'x) Discovery \<Rightarrow> 'resp \<Rightarrow> 'ctx \<Rightarrow> string \<Rightarrow> 's
     \<Rightarrow> ('resp option \<times> 'x error option) \<times> call list \<times> 's" where
  "Discovery_APIGroup D d zero ctx name s =
     (let url = urlForPath (client d) (path_Join D [''apis'', name])
      in case get (client d) ctx pbCodec url zero s of
           ((err, group'), s') \<Rightarrow>
             (case err of
                Some e \<Rightarrow> ((None, Some e), [get_call pbCodec url], s')
              | None \<Rightarrow> ((Some group', None), [get_call pbCodec url], s')))"

definition Discovery_APIResources ::
  "('w, 'ev, 'r, 's, 'x) deps \<Rightarrow> ('ctx, 'req, 'resp, 'w, 's, 'x) Discovery \<Rightarrow> 'resp \<Rightarrow> 'ctx \<Rightarrow> string \<Rightarrow> string \<Rightarrow> 's
     \<Rightarrow> ('resp option \<times> 'x error option) \<times> call list \<times> 's" where
  "Discovery_APIResources D d zero ctx groupName groupVersion s =
     (let url = urlForPath (client d) (path_Join D [''apis'', groupName, groupVersion])
      in case get (client d) ctx pbCodec url zero s of
           ((err, list'), s') \<Rightarrow>
             (case err of
                Some e \<Rightarrow> ((None, Some e), [get_call pbCodec url], s')
              | None \<Rightarrow> ((Some list', None), [get_call pbCodec url], s')))"

text \<open>
  \<open>Next\<close> of the discovery watcher decodes the raw payload into a fresh
  \<^verbatim>\<open>unversioned.APIResource\<close> with \<^verbatim>\<open>proto.Unmarshal\<close>.
\<close>

definition APIWatcher_Next ::
  "('w, 'ev, 'r, 's, 'x) deps \<Rightarrow> 'w APIWatcher \<Rightarrow> 's
     \<Rightarrow> (panic + ('ev option \<times> 'r option \<times> 'x error option)) \<times> call list \<times> 's" where
  "APIWatcher_Next D w s =
     (case watcher_next D (aw_watcher w) s of
        ((event, unknown, err), s') \<Rightarrow>
          (case err of
             Some e \<Rightarrow> (Inr (None, None, Some e), [next_call], s')
           | None \<Rightarrow>
               (case unknown of
                  None \<Rightarrow> (Inl nil_dereference, [next_call], s')
                | Some u \<Rightarrow>
                    (case proto_Unmarshal D (Raw u) (new_APIResource D) of
                       (Some e, resp) \<Rightarrow>
                         (Inr (None, None, Some e), [next_call, Unmarshal_call (Raw u)], s')
                     | (None, resp) \<Rightarrow>
                         (Inr (event, Some resp, None), [next_call, Unmarshal_call (Raw u)], s')))))"

definition APIWatcher_Close ::
  "('w, 'ev, 'r, 's, 'x) deps \<Rightarrow> 'w APIWatcher \<Rightarrow> 's \<Rightarrow> 'x error option \<times> call list \<times> 's" where
  "APIWatcher_Close D w s =
     (case watcher_Close D (aw_watcher w) s of (r, s') \<Rightarrow> (r, [Close_call], s'))"

definition Discovery_APIWatch ::
  "('w, 'ev, 'r, 's, 'x) deps \<Rightarrow> ('ctx, 'req, 'resp, 'w, 's, 'x) Discovery \<Rightarrow> 'ctx \<Rightarrow> string \<Rightarrow> string \<Rightarrow> 's
     \<Rightarrow> ('w APIWatcher option \<times> 'x error option) \<times> call list \<times> 's" where
  "Discovery_APIWatch D d ctx groupName groupVersion s =
     (let url = urlForPath (client d) (path_Join D [''apis'', groupName, groupVersion])
      in case watch (client d) ctx url s of
           ((watcher, err), s') \<Rightarrow>
             (case err of
                Some e \<Rightarrow> ((None, Some e), [watch_call url], s')
              | None \<Rightarrow> ((Some \<lparr>aw_watcher = watcher\<rparr>, None), [watch_call url], s')))"

text \<open>Predicates on the list of outside calls.\<close>

definition only_codec :: "codec \<Rightarrow> call list \<Rightarrow> bool" where
  "only_codec cd tr = list_all (\<lambda>k. call_codec k = Some cd) tr"

fun is_decode :: "call \<Rightarrow> bool" where
  "is_decode (Unmarshal_call b) = True"
| "is_decode (create_call cd m u) = False"
| "is_decode (get_call cd u) = False"
| "is_decode (delete_call cd u) = False"
| "is_decode (watch_call u) = False"
| "is_decode next_call = False"
| "is_decode Close_call = False"
| "is_decode (Println_call b) = False"

section \<open>A sample server\<close>

text \<open>
  Concrete collaborators on which the operations can be run. The world state is a counter
  of the outside calls that reached the server; a watcher is a number; contexts are
  \<open>unit\<close>; events, requests and responses are strings. \<open>sample_urlFor\<close> follows the
  path template \<^verbatim>\<open>/apis/{group}/{version}/namespaces/{ns}/{resource}/{name}\<close>, and
  \<open>sample_Join\<close> joins the non-empty elements with a slash.
\<close>

definition sample_urlFor :: "string \<Rightarrow> string \<Rightarrow> string \<Rightarrow> string \<Rightarrow> string \<Rightarrow> string" where
  "sample_urlFor g v ns r n =
     ''/apis/'' @ g @ ''/'' @ v @ ''/namespaces/'' @ ns @ ''/'' @ r @ (if n = [] then [] else ''/'' @ n)"

definition sample_urlForPath :: "string \<Rightarrow> string" where
  "sample_urlForPath p = ''/'' @ p"

fun sample_Join :: "string list \<Rightarrow> string" where
  "sample_Join [] = []"
| "sample_Join (x # xs) =
     (if x = [] then sample_Join xs
      else if sample_Join xs = [] then x
      else x @ ''/'' @ sample_Join xs)"

definition sample_create ::
  "unit \<Rightarrow> codec \<Rightarrow> string \<Rightarrow> string \<Rightarrow> string \<Rightarrow> 'resp \<Rightarrow> nat \<Rightarrow> (string error option \<times> 'resp) \<times> nat" where
  "sample_create ctx cd m u req resp s = ((None, resp), Suc s)"

definition sample_get ::
  "unit \<Rightarrow> codec \<Rightarrow> string \<Rightarrow> 'resp \<Rightarrow> nat \<Rightarrow> (string error option \<times> 'resp) \<times> nat" where
  "sample_get ctx cd u resp s = ((None, resp), Suc s)"

definition sample_delete :: "unit \<Rightarrow> codec \<Rightarrow> string \<Rightarrow> nat \<Rightarrow> string error option \<times> nat" where
  "sample_delete ctx cd u s = (None, Suc s)"

definition sample_watch :: "unit \<Rightarrow> string \<Rightarrow> nat \<Rightarrow> (nat \<times> string error option) \<times> nat" where
  "sample_watch ctx u s = ((7, None), Suc s)"

definition sample_Client :: "(unit, string, 'resp, nat, nat, string) Client" where
  "sample_Client = \<lparr>urlFor = sample_urlFor, urlForPath = sample_urlForPath,
     create = sample_create, get = sample_get, delete = sample_delete, watch = sample_watch\<rparr>"

definition sample_tpr :: "(unit, string, 'resp, nat, nat, string) ThirdPartyResources" where
  "sample_tpr = \<lparr>tpr_c = sample_Client, tpr_apiGroup = ''metrics.example.com'', tpr_apiVersion = ''v1''\<rparr>"

definition sample_Discovery :: "(unit, string, 'resp, nat, nat, string) Discovery" where
  "sample_Discovery = \<lparr>client = sample_Client\<rparr>"

text \<open>A stream that delivers one ADDED event with payload bytes 1, 2.\<close>

definition sample_next :: "nat \<Rightarrow> nat \<Rightarrow> (string option \<times> Unknown option \<times> string error option) \<times> nat" where
  "sample_next w s = ((Some ''ADDED'', Some \<lparr>Raw = [1, 2]\<rparr>, None), Suc s)"

text \<open>A stream that has ended.\<close>

definition broken_next :: "nat \<Rightarrow> nat \<Rightarrow> (string option \<times> Unknown option \<times> string error option) \<times> nat" where
  "broken_next w s = ((None, None, Some (foreign ''EOF'')), Suc s)"

definition sample_Close :: "nat \<Rightarrow> nat \<Rightarrow> string error option \<times> nat" where
  "sample_Close w s = (None, Suc s)"

text \<open>A decoder that accepts every payload, and one that rejects every payload.\<close>

definition sample_Unmarshal :: "byte list \<Rightarrow> string \<Rightarrow> string error option \<times> string" where
  "sample_Unmarshal b r = (None, ''pods'')"

definition failing_Unmarshal :: "byte list \<Rightarrow> string \<Rightarrow> string error option \<times> string" where
  "failing_Unmarshal b r = (Some (foreign ''bad wire type''), r)"

definition sample_deps :: "(nat, string, string, nat, string) deps" where
  "sample_deps = \<lparr>watcher_next = sample_next, watcher_Close = sample_Close,
     proto_Unmarshal = sample_Unmarshal, new_APIResource = [], path_Join = sample_Join\<rparr>"

definition broken_deps :: "(nat, string, string, nat, string) deps" where
  "broken_deps = \<lparr>watcher_next = broken_next, watcher_Close = sample_Close,
     proto_Unmarshal = sample_Unmarshal, new_APIResource = [], path_Join = sample_Join\<rparr>"

definition undecodable_deps :: "(nat, string, string, nat, string) deps" where
  "undecodable_deps = \<lparr>watcher_next = sample_next, watcher_Close = sample_Close,
     proto_Unmarshal = failing_Unmarshal, new_APIResource = [], path_Join = sample_Join\<rparr>"

text \<open>
  A server that speaks one codec only: a request made with another codec is answered with
  an error, and the response target is left as it was.
\<close>

definition strict_create ::
  "codec \<Rightarrow> unit \<Rightarrow> codec \<Rightarrow> string \<Rightarrow> string \<Rightarrow> string \<Rightarrow> 'resp \<Rightarrow> nat
     \<Rightarrow> (string error option \<times> 'resp) \<times> nat" where
  "strict_create want ctx cd m u req resp s =
     ((if cd = want then None else Some (foreign ''415 Unsupported Media Type''), resp), Suc s)"

definition strict_get ::
  "codec \<Rightarrow> unit \<Rightarrow> codec \<Rightarrow> string \<Rightarrow> 'resp \<Rightarrow> nat \<Rightarrow> (string error option \<times> 'resp) \<times> nat" where
  "strict_get want ctx cd u resp s =
     ((if cd = want then None else Some (foreign ''415 Unsupported Media Type''), resp), Suc s)"

definition strict_delete ::
  "codec \<Rightarrow> unit \<Rightarrow> codec \<Rightarrow> string \<Rightarrow> nat \<Rightarrow> string error option \<times> nat" where
  "strict_delete want ctx cd u s =
     (if cd = want then None else Some (foreign ''415 Unsupported Media Type''), Suc s)"

definition strict_Client :: "codec \<Rightarrow> (unit, string, 'resp, nat, nat, string) Client" where
  "strict_Client want = \<lparr>urlFor = sample_urlFor, urlForPath = sample_urlForPath,
     create = strict_create want, get = strict_get want, delete = strict_delete want,
     watch = sample_watch\<rparr>"

definition strict_tpr :: "codec \<Rightarrow> (unit, string, 'resp, nat, nat, string) ThirdPartyResources" where
  "strict_tpr want = \<lparr>tpr_c = strict_Client want, tpr_apiGroup = ''metrics.example.com'',
     tpr_apiVersion = ''v1''\<rparr>"

definition strict_Discovery :: "codec \<Rightarrow> (unit, string, 'resp, nat, nat, string) Discovery" where
  "strict_Discovery want = \<lparr>client = strict_Client want\<rparr>"

text \<open>
  A decoder that accepts the six bytes of a message whose first field is the string
  "pods" and reports every other payload as cut short; a stream that delivers those six
  bytes, one that delivers the first three of them, and one that is itself cut short and
  fails with the same error.
\<close>

definition wire_Unmarshal :: "byte list \<Rightarrow> string \<Rightarrow> string error option \<times> string" where
  "wire_Unmarshal b r =
     (if b = [10, 4, 112, 111, 100, 115] then (None, ''pods'')
      else (Some (foreign ''unexpected EOF''), r))"

definition pods_next :: "nat \<Rightarrow> nat \<Rightarrow> (string option \<times> Unknown option \<times> string error option) \<times> nat" where
  "pods_next w s = ((Some ''ADDED'', Some \<lparr>Raw = [10, 4, 112, 111, 100, 115]\<rparr>, None), Suc s)"

definition truncated_next :: "nat \<Rightarrow> nat \<Rightarrow> (string option \<times> Unknown option \<times> string error option) \<times> nat" where
  "truncated_next w s = ((Some ''ADDED'', Some \<lparr>Raw = [10, 4, 112]\<rparr>, None), Suc s)"

definition cut_next :: "nat \<Rightarrow> nat \<Rightarrow> (string option \<times> Unknown option \<times> string error option) \<times> nat" where
  "cut_next w s = ((None, None, Some (foreign ''unexpected EOF'')), Suc s)"

definition pods_deps :: "(nat, string, string, nat, string) deps" where
  "pods_deps = \<lparr>watcher_next = pods_next, watcher_Close = sample_Close,
     proto_Unmarshal = wire_Unmarshal, new_APIResource = [], path_Join = sample_Join\<rparr>"

definition truncated_deps :: "(nat, string, string, nat, string) deps" where
  "truncated_deps = \<lparr>watcher_next = truncated_next, watcher_Close = sample_Close,
     proto_Unmarshal = wire_Unmarshal, new_APIResource = [], path_Join = sample_Join\<rparr>"

definition cut_deps :: "(nat, string, string, nat, string) deps" where
  "cut_deps = \<lparr>watcher_next = cut_next, watcher_Close = sample_Close,
     proto_Unmarshal = wire_Unmarshal, new_APIResource = [], path_Join = sample_Join\<rparr>"

section \<open>Properties of \<open>checkResource\<close>\<close>

lemma checkResource_None_iff:
  "checkResource g v r ns n = None \<longleftrightarrow> g \<noteq> [] \<and> v \<noteq> [] \<and> r \<noteq> [] \<and> ns \<noteq> [] \<and> n \<noteq> []"
  by (simp add: checkResource_def)

text \<open>The message for each single empty argument, the other four being non-empty.\<close>

lemma checkResource_single_empty:
  assumes "g \<noteq> []" and "v \<noteq> []" and "r \<noteq> []" and "ns \<noteq> []" and "n \<noteq> []"
  shows "checkResource [] v r ns n = Some (errors_New ''no api group provided'')"
    and "checkResource g [] r ns n = Some (errors_New ''no api version provided'')"
    and "checkResource g v [] ns n = Some (errors_New ''no resource version provided'')"
    and "checkResource g v r [] n = Some (errors_New ''no namespace provided'')"
    and "checkResource g v r ns [] = Some (errors_New ''no resource name provided'')"
  using assms by (simp_all add: checkResource_def)

text \<open>
  Claim C1. \<open>checkResource\<close> returns nil when all five arguments are non-empty, and for
  a single empty field an error naming that field. The first half holds
  (\<open>checkResource_None_iff\<close>). With only \<open>resource\<close> empty the code returns the message
  "no resource version provided", which names a resource version, not the resource.
\<close>

theorem checkResource_empty_resource_message:
  "checkResource ''metrics.example.com'' ''v1'' [] ''default'' ''foo''
     = Some (errors_New ''no resource version provided'')"
  by (simp add: checkResource_def)

section \<open>Validation in the third party resources client\<close>

text \<open>
  Claim C2. Get, Update and Delete return a validation error when any of the five identity
  components is empty. \<open>Update\<close> hands the constant "not required" to \<open>checkResource\<close> in
  place of its \<open>name\<close> argument, so an empty name passes validation and the request is
  dispatched: on the sample server the PUT goes to the collection path.
\<close>

theorem Update_empty_name_is_dispatched:
  "ThirdPartyResources_Update sample_tpr () ''metrics'' ''default'' [] ''body'' ''old'' 0
     = ((None, ''old''),
        [create_call jsonCodec ''PUT'' ''/apis/metrics.example.com/v1/namespaces/default/metrics''],
        1)"
  by (simp add: ThirdPartyResources_Update_def checkResource_def sample_tpr_def sample_Client_def
      sample_urlFor_def sample_create_def)

text \<open>The sibling operations reject the same identity.\<close>

lemma Get_empty_name_is_rejected:
  "ThirdPartyResources_Get sample_tpr () ''metrics'' ''default'' [] ''old'' 0
     = ((Some (errors_New ''no resource name provided''), ''old''), [], 0)"
  by (simp add: ThirdPartyResources_Get_def checkResource_def sample_tpr_def)

lemma Delete_empty_name_is_rejected:
  "ThirdPartyResources_Delete (sample_tpr :: (unit, string, string, nat, nat, string) ThirdPartyResources)
       () ''metrics'' ''default'' [] 0
     = (Some (errors_New ''no resource name provided''), [], 0)"
  by (simp add: ThirdPartyResources_Delete_def checkResource_def sample_tpr_def)

text \<open>
  Claim C6. In each of the six operations, when the call of \<open>checkResource\<close> that the
  operation makes returns an error, the operation returns that error at once: it makes no
  outside call, leaves the world state and the response target as they were, and
  \<open>Watch\<close> returns a nil watcher.
\<close>

theorem validation_failure_returns_before_dispatch:
  "(checkResource (tpr_apiGroup t) (tpr_apiVersion t) resource namespace ''not required'' = Some e
      \<longrightarrow> ThirdPartyResources_Create t ctx resource namespace req resp s = ((Some e, resp), [], s)
        \<and> ThirdPartyResources_Update t ctx resource namespace name req resp s = ((Some e, resp), [], s))
   \<and> (checkResource (tpr_apiGroup t) (tpr_apiVersion t) resource namespace name = Some e
      \<longrightarrow> ThirdPartyResources_Get t ctx resource namespace name resp s = ((Some e, resp), [], s)
        \<and> ThirdPartyResources_Delete t ctx resource namespace name s = (Some e, [], s))
   \<and> (checkResource (tpr_apiGroup t) (tpr_apiVersion t) resource namespace ''name not required'' = Some e
      \<longrightarrow> ThirdPartyResources_List t ctx resource namespace resp s = ((Some e, resp), [], s)
        \<and> ThirdPartyResources_Watch t ctx resource namespace s = ((None, Some e), [], s))"
  by (simp add: ThirdPartyResources_Create_def ThirdPartyResources_Update_def
      ThirdPartyResources_Get_def ThirdPartyResources_Delete_def
      ThirdPartyResources_List_def ThirdPartyResources_Watch_def)

text \<open>The six operations on the sample server, with an empty resource.\<close>

theorem validation_failure_returns_before_dispatch_witness:
  "ThirdPartyResources_Create sample_tpr () [] ''default'' ''body'' ''old'' 0
     = ((Some (errors_New ''no resource version provided''), ''old''), [], 0)
   \<and> ThirdPartyResources_Update sample_tpr () [] ''default'' ''foo'' ''body'' ''old'' 0
     = ((Some (errors_New ''no resource version provided''), ''old''), [], 0)
   \<and> ThirdPartyResources_Get sample_tpr () [] ''default'' ''foo'' ''old'' 0
     = ((Some (errors_New ''no resource version provided''), ''old''), [], 0)
   \<and> ThirdPartyResources_Delete (sample_tpr :: (unit, string, string, nat, nat, string) ThirdPartyResources)
        () [] ''default'' ''foo'' 0
     = (Some (errors_New ''no resource version provided''), [], 0)
   \<and> ThirdPartyResources_List sample_tpr () [] ''default'' ''old'' 0
     = ((Some (errors_New ''no resource version provided''), ''old''), [], 0)
   \<and> ThirdPartyResources_Watch (sample_tpr :: (unit, string, string, nat, nat, string) ThirdPartyResources)
        () [] ''default'' 0
     = ((None, Some (errors_New ''no resource version provided'')), [], 0)"
  using validation_failure_returns_before_dispatch
    [of "sample_tpr :: (unit, string, string, nat, nat, string) ThirdPartyResources"
        "[]" "''default''" "errors_New ''no resource version provided''" "()" "''body''" "''old''" 0 "''foo''"]
  by (simp add: checkResource_def sample_tpr_def)

section \<open>Codec choice\<close>

text \<open>
  Claim C5. Create, Update, Get, Delete and List of the third party resources client hand
  \<open>jsonCodec\<close> to the dispatcher, for every input. When its validation passes, each
  returns the result and leaves the state of one dispatcher call made with \<open>jsonCodec\<close>
  (and the operation's verb, path and bodies); when it does not, the dispatcher is not
  called.
\<close>

theorem ThirdPartyResources_dispatch_with_jsonCodec:
  "(tpr_apiGroup t \<noteq> [] \<and> tpr_apiVersion t \<noteq> [] \<and> resource \<noteq> [] \<and> namespace \<noteq> [] \<longrightarrow>
      ThirdPartyResources_Create t ctx resource namespace req resp s
        = (fst (create (tpr_c t) ctx jsonCodec ''POST''
                  (urlFor (tpr_c t) (tpr_apiGroup t) (tpr_apiVersion t) namespace resource []) req resp s),
           [create_call jsonCodec ''POST''
              (urlFor (tpr_c t) (tpr_apiGroup t) (tpr_apiVersion t) namespace resource [])],
           snd (create (tpr_c t) ctx jsonCodec ''POST''
                  (urlFor (tpr_c t) (tpr_apiGroup t) (tpr_apiVersion t) namespace resource []) req resp s))
    \<and> ThirdPartyResources_Update t ctx resource namespace name req resp s
        = (fst (create (tpr_c t) ctx jsonCodec ''PUT''
                  (urlFor (tpr_c t) (tpr_apiGroup t) (tpr_apiVersion t) namespace resource name) req resp s),
           [create_call jsonCodec ''PUT''
              (urlFor (tpr_c t) (tpr_apiGroup t) (tpr_apiVersion t) namespace resource name)],
           snd (create (tpr_c t) ctx jsonCodec ''PUT''
                  (urlFor (tpr_c t) (tpr_apiGroup t) (tpr_apiVersion t) namespace resource name) req resp s))
    \<and> ThirdPartyResources_List t ctx resource namespace resp s
        = (fst (get (tpr_c t) ctx jsonCodec
                  (urlFor (tpr_c t) (tpr_apiGroup t) (tpr_apiVersion t) namespace resource []) resp s),
           [get_call jsonCodec
              (urlFor (tpr_c t) (tpr_apiGroup t) (tpr_apiVersion t) namespace resource [])],
           snd (get (tpr_c t) ctx jsonCodec
                  (urlFor (tpr_c t) (tpr_apiGroup t) (tpr_apiVersion t) namespace resource []) resp s)))
   \<and> (tpr_apiGroup t \<noteq> [] \<and> tpr_apiVersion t \<noteq> [] \<and> resource \<noteq> [] \<and> namespace \<noteq> [] \<and> name \<noteq> [] \<longrightarrow>
      ThirdPartyResources_Get t ctx resource namespace name resp s
        = (fst (get (tpr_c t) ctx jsonCodec
                  (urlFor (tpr_c t) (tpr_apiGroup t) (tpr_apiVersion t) namespace resource name) resp s),
           [get_call jsonCodec
              (urlFor (tpr_c t) (tpr_apiGroup t) (tpr_apiVersion t) namespace resource name)],
           snd (get (tpr_c t) ctx jsonCodec
                  (urlFor (tpr_c t) (tpr_apiGroup t) (tpr_apiVersion t) namespace resource name) resp s))
    \<and> ThirdPartyResources_Delete t ctx resource namespace name s
        = (fst (delete (tpr_c t) ctx jsonCodec
                  (urlFor (tpr_c t) (tpr_apiGroup t) (tpr_apiVersion t) namespace resource name) s),
           [delete_call jsonCodec
              (urlFor (tpr_c t) (tpr_apiGroup t) (tpr_apiVersion t) namespace resource name)],
           snd (delete (tpr_c t) ctx jsonCodec
                  (urlFor (tpr_c t) (tpr_apiGroup t) (tpr_apiVersion t) namespace resource name) s)))
   \<and> calls (ThirdPartyResources_Create t ctx resource namespace req resp s)
     = (if tpr_apiGroup t \<noteq> [] \<and> tpr_apiVersion t \<noteq> [] \<and> resource \<noteq> [] \<and> namespace \<noteq> []
        then [create_call jsonCodec ''POST''
               (urlFor (tpr_c t) (tpr_apiGroup t) (tpr_apiVersion t) namespace resource [])]
        else [])
   \<and> calls (ThirdPartyResources_Update t ctx resource namespace name req resp s)
     = (if tpr_apiGroup t \<noteq> [] \<and> tpr_apiVersion t \<noteq> [] \<and> resource \<noteq> [] \<and> namespace \<noteq> []
        then [create_call jsonCodec ''PUT''
               (urlFor (tpr_c t) (tpr_apiGroup t) (tpr_apiVersion t) namespace resource name)]
        else [])
   \<and> calls (ThirdPartyResources_Get t ctx resource namespace name resp s)
     = (if tpr_apiGroup t \<noteq> [] \<and> tpr_apiVersion t \<noteq> [] \<and> resource \<noteq> [] \<and> namespace \<noteq> [] \<and> name \<noteq> []
        then [get_call jsonCodec
               (urlFor (tpr_c t) (tpr_apiGroup t) (tpr_apiVersion t) namespace resource name)]
        else [])
   \<and> calls (ThirdPartyResources_Delete t ctx resource namespace name s)
     = (if tpr_apiGroup t \<noteq> [] \<and> tpr_apiVersion t \<noteq> [] \<and> resource \<noteq> [] \<and> namespace \<noteq> [] \<and> name \<noteq> []
        then [delete_call jsonCodec
               (urlFor (tpr_c t) (tpr_apiGroup t) (tpr_apiVersion t) namespace resource name)]
        else [])
   \<and> calls (ThirdPartyResources_List t ctx resource namespace resp s)
     = (if tpr_apiGroup t \<noteq> [] \<and> tpr_apiVersion t \<noteq> [] \<and> resource \<noteq> [] \<and> namespace \<noteq> []
        then [get_call jsonCodec
               (urlFor (tpr_c t) (tpr_apiGroup t) (tpr_apiVersion t) namespace resource [])]
        else [])
   \<and> only_codec jsonCodec (calls (ThirdPartyResources_Create t ctx resource namespace req resp s))
   \<and> only_codec jsonCodec (calls (ThirdPartyResources_Update t ctx resource namespace name req resp s))
   \<and> only_codec jsonCodec (calls (ThirdPartyResources_Get t ctx resource namespace name resp s))
   \<and> only_codec jsonCodec (calls (ThirdPartyResources_Delete t ctx resource namespace name s))
   \<and> only_codec jsonCodec (calls (ThirdPartyResources_List t ctx resource namespace resp s))"
  by (simp add: ThirdPartyResources_Create_def ThirdPartyResources_Update_def
      ThirdPartyResources_Get_def ThirdPartyResources_Delete_def ThirdPartyResources_List_def
      checkResource_def calls_def only_codec_def Let_def split: prod.split)

text \<open>
  The five operations with a full identity, on a server that answers every codec but
  \<open>jsonCodec\<close> with an error: all five succeed.
\<close>

theorem ThirdPartyResources_dispatch_with_jsonCodec_witness:
  "ThirdPartyResources_Create (strict_tpr jsonCodec) () ''metrics'' ''default'' ''body'' ''old'' 0
     = ((None, ''old''),
        [create_call jsonCodec ''POST'' ''/apis/metrics.example.com/v1/namespaces/default/metrics''], 1)
   \<and> ThirdPartyResources_Update (strict_tpr jsonCodec) () ''metrics'' ''default'' ''foo'' ''body'' ''old'' 0
     = ((None, ''old''),
        [create_call jsonCodec ''PUT'' ''/apis/metrics.example.com/v1/namespaces/default/metrics/foo''], 1)
   \<and> ThirdPartyResources_Get (strict_tpr jsonCodec) () ''metrics'' ''default'' ''foo'' ''old'' 0
     = ((None, ''old''),
        [get_call jsonCodec ''/apis/metrics.example.com/v1/namespaces/default/metrics/foo''], 1)
   \<and> ThirdPartyResources_Delete
        (strict_tpr jsonCodec :: (unit, string, string, nat, nat, string) ThirdPartyResources)
        () ''metrics'' ''default'' ''foo'' 0
     = (None, [delete_call jsonCodec ''/apis/metrics.example.com/v1/namespaces/default/metrics/foo''], 1)
   \<and> ThirdPartyResources_List (strict_tpr jsonCodec) () ''metrics'' ''default'' ''old'' 0
     = ((None, ''old''),
        [get_call jsonCodec ''/apis/metrics.example.com/v1/namespaces/default/metrics''], 1)"
  using ThirdPartyResources_dispatch_with_jsonCodec
    [of "strict_tpr jsonCodec :: (unit, string, string, nat, nat, string) ThirdPartyResources"
        "''metrics''" "''default''" "()" "''body''" "''old''" 0 "''foo''"]
  by (simp add: strict_tpr_def strict_Client_def sample_urlFor_def strict_create_def
      strict_get_def strict_delete_def)

text \<open>
  Against C4 as stated: \<open>Version\<close> dispatches its request with \<open>jsonCodec\<close>. Its response
  type is the plain struct \<open>Version\<close>, which has JSON field tags only. A server that answers
  \<open>pbCodec\<close> only refuses it.
\<close>

theorem Discovery_Version_uses_jsonCodec:
  "calls (Discovery_Version sample_Discovery () 0) = [get_call jsonCodec ''/version'']
   \<and> map call_codec (calls (Discovery_Version sample_Discovery () 0)) \<noteq> [Some pbCodec]
   \<and> returned (Discovery_Version (strict_Discovery pbCodec) () 0)
       = (None, Some (foreign ''415 Unsupported Media Type''))
   \<and> returned (Discovery_Version (strict_Discovery jsonCodec) () 0) = (Some zero_Version, None)"
  by (simp add: Discovery_Version_def calls_def returned_def sample_Discovery_def sample_Client_def
      sample_urlForPath_def sample_get_def strict_Discovery_def strict_Client_def strict_get_def)

text \<open>
  Claim C4, amended. APIGroups, APIGroup and APIResources dispatch their one request with
  the compact-binary codec \<open>pbCodec\<close>; Version dispatches its one request with the
  structured-text codec \<open>jsonCodec\<close>. Each returns the error of that one \<open>get\<close>, or on a nil
  error the response value \<open>get\<close> left, and leaves the state \<open>get\<close> left.
\<close>

theorem Discovery_codecs:
  "calls (Discovery_Version dv ctx s) = [get_call jsonCodec (urlForPath (client dv) ''version'')]
   \<and> calls (Discovery_APIGroups d zero ctx s) = [get_call pbCodec (urlForPath (client d) ''apis'')]
   \<and> calls (Discovery_APIGroup D d zero ctx name s)
       = [get_call pbCodec (urlForPath (client d) (path_Join D [''apis'', name]))]
   \<and> calls (Discovery_APIResources D d zero ctx groupName groupVersion s)
       = [get_call pbCodec (urlForPath (client d) (path_Join D [''apis'', groupName, groupVersion]))]
   \<and> returned (Discovery_Version dv ctx s)
       = (case fst (fst (get (client dv) ctx jsonCodec (urlForPath (client dv) ''version'') zero_Version s)) of
            Some e \<Rightarrow> (None, Some e)
          | None \<Rightarrow> (Some (snd (fst (get (client dv) ctx jsonCodec
                               (urlForPath (client dv) ''version'') zero_Version s))), None))
   \<and> state_after (Discovery_Version dv ctx s)
       = snd (get (client dv) ctx jsonCodec (urlForPath (client dv) ''version'') zero_Version s)
   \<and> returned (Discovery_APIGroups d zero ctx s)
       = (case fst (fst (get (client d) ctx pbCodec (urlForPath (client d) ''apis'') zero s)) of
            Some e \<Rightarrow> (None, Some e)
          | None \<Rightarrow> (Some (snd (fst (get (client d) ctx pbCodec
                               (urlForPath (client d) ''apis'') zero s))), None))
   \<and> state_after (Discovery_APIGroups d zero ctx s)
       = snd (get (client d) ctx pbCodec (urlForPath (client d) ''apis'') zero s)
   \<and> returned (Discovery_APIGroup D d zero ctx name s)
       = (case fst (fst (get (client d) ctx pbCodec
                      (urlForPath (client d) (path_Join D [''apis'', name])) zero s)) of
            Some e \<Rightarrow> (None, Some e)
          | None \<Rightarrow> (Some (snd (fst (get (client d) ctx pbCodec
                               (urlForPath (client d) (path_Join D [''apis'', name])) zero s))), None))
   \<and> state_after (Discovery_APIGroup D d zero ctx name s)
       = snd (get (client d) ctx pbCodec (urlForPath (client d) (path_Join D [''apis'', name])) zero s)
   \<and> returned (Discovery_APIResources D d zero ctx groupName groupVersion s)
       = (case fst (fst (get (client d) ctx pbCodec
                      (urlForPath (client d) (path_Join D [''apis'', groupName, groupVersion])) zero s)) of
            Some e \<Rightarrow> (None, Some e)
          | None \<Rightarrow> (Some (snd (fst (get (client d) ctx pbCodec
                               (urlForPath (client d) (path_Join D [''apis'', groupName, groupVersion]))
                               zero s))), None))
   \<and> state_after (Discovery_APIResources D d zero ctx groupName groupVersion s)
       = snd (get (client d) ctx pbCodec
               (urlForPath (client d) (path_Join D [''apis'', groupName, groupVersion])) zero s)"
  by (simp add: Discovery_Version_def Discovery_APIGroups_def Discovery_APIGroup_def
      Discovery_APIResources_def calls_def returned_def state_after_def Let_def
      split: prod.split option.split)

text \<open>
  Version on a server that answers \<open>jsonCodec\<close> only, the other three operations on a
  server that answers \<open>pbCodec\<close> only: all four succeed.
\<close>

theorem Discovery_codecs_witness:
  "Discovery_Version (strict_Discovery jsonCodec) () 0
     = ((Some zero_Version, None), [get_call jsonCodec ''/version''], 1)
   \<and> Discovery_APIGroups (strict_Discovery pbCodec) ''none'' () 0
     = ((Some ''none'', None), [get_call pbCodec ''/apis''], 1)
   \<and> Discovery_APIGroup sample_deps (strict_Discovery pbCodec) ''none'' () ''batch'' 0
     = ((Some ''none'', None), [get_call pbCodec ''/apis/batch''], 1)
   \<and> Discovery_APIResources sample_deps (strict_Discovery pbCodec) ''none'' () ''batch'' ''v1'' 0
     = ((Some ''none'', None), [get_call pbCodec ''/apis/batch/v1''], 1)"
  using Discovery_codecs [of "strict_Discovery jsonCodec" "()" 0 "strict_Discovery pbCodec" "''none''"
      sample_deps "''batch''" "''batch''" "''v1''"]
  by (simp add: strict_Discovery_def strict_Client_def sample_urlForPath_def strict_get_def
      sample_deps_def returned_def state_after_def calls_def prod_eq_iff)

section \<open>The typed watch adapters\<close>

text \<open>
  Against C3 as stated, on two points. On a stream whose \<open>next\<close> succeeds with payload
  bytes 1, 2, the third party watcher returns the event with a nil object and makes no
  decode call. And \<open>APIWatcher.Next\<close> returns a payload that is cut short and a stream
  that is cut short alike: the same nil event, nil object and error, and the same state.
\<close>

theorem ThirdPartyResourceWatcher_Next_does_not_decode:
  "watcher_next sample_deps 7 0 = ((Some ''ADDED'', Some \<lparr>Raw = [1, 2]\<rparr>, None), 1)
   \<and> ThirdPartyResourceWatcher_Next sample_deps \<lparr>tw_watcher = 7\<rparr> 0
     = (Inr (Some ''ADDED'', None :: string option, None), [next_call, Println_call [1, 2]], 1)
   \<and> \<not> list_ex is_decode
         (calls (ThirdPartyResourceWatcher_Next sample_deps \<lparr>tw_watcher = 7\<rparr> 0
            :: (panic + (string option \<times> string option \<times> string error option)) \<times> call list \<times> nat))
   \<and> watcher_next truncated_deps 7 0 = ((Some ''ADDED'', Some \<lparr>Raw = [10, 4, 112]\<rparr>, None), 1)
   \<and> proto_Unmarshal truncated_deps [10, 4, 112] (new_APIResource truncated_deps)
     = (Some (foreign ''unexpected EOF''), [])
   \<and> watcher_next cut_deps 7 0 = ((None, None, Some (foreign ''unexpected EOF'')), 1)
   \<and> returned (APIWatcher_Next truncated_deps \<lparr>aw_watcher = 7\<rparr> 0)
     = Inr (None, None, Some (foreign ''unexpected EOF''))
   \<and> returned (APIWatcher_Next truncated_deps \<lparr>aw_watcher = 7\<rparr> 0)
     = returned (APIWatcher_Next cut_deps \<lparr>aw_watcher = 7\<rparr> 0)
   \<and> state_after (APIWatcher_Next truncated_deps \<lparr>aw_watcher = 7\<rparr> 0)
     = state_after (APIWatcher_Next cut_deps \<lparr>aw_watcher = 7\<rparr> 0)"
  by (simp add: ThirdPartyResourceWatcher_Next_def APIWatcher_Next_def calls_def returned_def
      state_after_def sample_deps_def sample_next_def truncated_deps_def truncated_next_def
      cut_deps_def cut_next_def wire_Unmarshal_def)

text \<open>
  Claim C3, amended. When the underlying \<open>next\<close> succeeds with an envelope,
  \<open>APIWatcher.Next\<close> decodes the envelope's raw bytes with \<^verbatim>\<open>proto.Unmarshal\<close> into a
  fresh \<^verbatim>\<open>APIResource\<close>: on success it returns the event and the decoded object, on
  failure it returns the decoder's error, as it is, with nil event and nil object. That is
  what it returns for a stream that fails with the same error: the two failures differ by
  the error value alone. \<open>ThirdPartyResourceWatcher.Next\<close> does not decode: it returns the
  event and a nil object.
\<close>

theorem APIWatcher_Next_decodes:
  assumes "watcher_next D (aw_watcher w) s = ((event, Some u, None), s')"
    and "watcher_next D (tw_watcher tw) s = ((event, Some u, None), s')"
  shows "(proto_Unmarshal D (Raw u) (new_APIResource D) = (None, resp)
            \<longrightarrow> APIWatcher_Next D w s
                = (Inr (event, Some resp, None), [next_call, Unmarshal_call (Raw u)], s'))
       \<and> (proto_Unmarshal D (Raw u) (new_APIResource D) = (Some e, resp)
            \<longrightarrow> APIWatcher_Next D w s
                = (Inr (None, None, Some e), [next_call, Unmarshal_call (Raw u)], s'))
       \<and> (proto_Unmarshal D (Raw u) (new_APIResource D) = (Some e, resp)
            \<and> watcher_next D2 (aw_watcher w2) s2 = ((event2, unknown2, Some e), s2')
            \<longrightarrow> returned (APIWatcher_Next D w s) = returned (APIWatcher_Next D2 w2 s2))
       \<and> ThirdPartyResourceWatcher_Next D tw s
           = (Inr (event, None :: 'o option, None), [next_call, Println_call (Raw u)], s')"
  using assms by (simp add: APIWatcher_Next_def ThirdPartyResourceWatcher_Next_def returned_def)

text \<open>
  A payload that decodes, a payload cut short beside a stream cut short, and the third
  party watcher.
\<close>

theorem APIWatcher_Next_decodes_witness:
  "APIWatcher_Next pods_deps \<lparr>aw_watcher = 7\<rparr> 0
     = (Inr (Some ''ADDED'', Some ''pods'', None),
        [next_call, Unmarshal_call [10, 4, 112, 111, 100, 115]], 1)
   \<and> APIWatcher_Next truncated_deps \<lparr>aw_watcher = 7\<rparr> 0
     = (Inr (None, None, Some (foreign ''unexpected EOF'')),
        [next_call, Unmarshal_call [10, 4, 112]], 1)
   \<and> returned (APIWatcher_Next truncated_deps \<lparr>aw_watcher = 7\<rparr> 0)
     = returned (APIWatcher_Next cut_deps \<lparr>aw_watcher = 7\<rparr> 0)
   \<and> ThirdPartyResourceWatcher_Next pods_deps \<lparr>tw_watcher = 7\<rparr> 0
     = (Inr (Some ''ADDED'', None :: string option, None),
        [next_call, Println_call [10, 4, 112, 111, 100, 115]], 1)"
proof -
  have n1: "watcher_next pods_deps (aw_watcher \<lparr>aw_watcher = 7\<rparr>) 0
              = ((Some ''ADDED'', Some \<lparr>Raw = [10, 4, 112, 111, 100, 115]\<rparr>, None), 1)"
    by (simp add: pods_deps_def pods_next_def)
  have n2: "watcher_next pods_deps (tw_watcher \<lparr>tw_watcher = 7\<rparr>) 0
              = ((Some ''ADDED'', Some \<lparr>Raw = [10, 4, 112, 111, 100, 115]\<rparr>, None), 1)"
    by (simp add: pods_deps_def pods_next_def)
  have n3: "watcher_next truncated_deps (aw_watcher \<lparr>aw_watcher = 7\<rparr>) 0
              = ((Some ''ADDED'', Some \<lparr>Raw = [10, 4, 112]\<rparr>, None), 1)"
    by (simp add: truncated_deps_def truncated_next_def)
  have n4: "watcher_next truncated_deps (tw_watcher \<lparr>tw_watcher = 7\<rparr>) 0
              = ((Some ''ADDED'', Some \<lparr>Raw = [10, 4, 112]\<rparr>, None), 1)"
    by (simp add: truncated_deps_def truncated_next_def)
  have n5: "watcher_next cut_deps (aw_watcher \<lparr>aw_watcher = 7\<rparr>) 0
              = ((None, None, Some (foreign ''unexpected EOF'')), 1)"
    by (simp add: cut_deps_def cut_next_def)
  have ok: "proto_Unmarshal pods_deps (Raw \<lparr>Raw = [10, 4, 112, 111, 100, 115]\<rparr>)
              (new_APIResource pods_deps) = (None, ''pods'')"
    by (simp add: pods_deps_def wire_Unmarshal_def)
  have bad: "proto_Unmarshal truncated_deps (Raw \<lparr>Raw = [10, 4, 112]\<rparr>)
               (new_APIResource truncated_deps) = (Some (foreign ''unexpected EOF''), [])"
    by (simp add: truncated_deps_def wire_Unmarshal_def)
  from APIWatcher_Next_decodes [where 'o = string, OF n1 n2, of "''pods''"] ok
  have a: "APIWatcher_Next pods_deps \<lparr>aw_watcher = 7\<rparr> 0
             = (Inr (Some ''ADDED'', Some ''pods'', None),
                [next_call, Unmarshal_call [10, 4, 112, 111, 100, 115]], 1)"
    and d: "ThirdPartyResourceWatcher_Next pods_deps \<lparr>tw_watcher = 7\<rparr> 0
             = (Inr (Some ''ADDED'', None :: string option, None),
                [next_call, Println_call [10, 4, 112, 111, 100, 115]], 1)"
    by simp_all
  note t = APIWatcher_Next_decodes [where 'o = string, OF n3 n4,
      of "[]" "foreign ''unexpected EOF''" cut_deps "\<lparr>aw_watcher = 7\<rparr>" 0 None None 1]
  from t bad
  have "APIWatcher_Next truncated_deps \<lparr>aw_watcher = 7\<rparr> 0
          = (Inr (None, None, Some (foreign ''unexpected EOF'')),
             [next_call, Unmarshal_call (Raw \<lparr>Raw = [10, 4, 112]\<rparr>)], 1)"
    by blast
  then have b: "APIWatcher_Next truncated_deps \<lparr>aw_watcher = 7\<rparr> 0
             = (Inr (None, None, Some (foreign ''unexpected EOF'')),
                [next_call, Unmarshal_call [10, 4, 112]], 1)"
    by simp
  from t bad n5
  have c: "returned (APIWatcher_Next truncated_deps \<lparr>aw_watcher = 7\<rparr> 0)
             = returned (APIWatcher_Next cut_deps \<lparr>aw_watcher = 7\<rparr> 0)"
    by blast
  from a b c d show ?thesis by blast
qed

text \<open>
  Claim C7. When the underlying \<open>next\<close> succeeds with an envelope,
  \<open>ThirdPartyResourceWatcher.Next\<close> returns the event, a nil object and a nil error; it
  prints the raw bytes and makes no decode call.
\<close>

theorem ThirdPartyResourceWatcher_Next_returns_nil_object:
  assumes "watcher_next D (tw_watcher w) s = ((event, Some u, None), s')"
  shows "ThirdPartyResourceWatcher_Next D w s
           = (Inr (event, None, None), [next_call, Println_call (Raw u)], s')
       \<and> \<not> list_ex is_decode
             (calls (ThirdPartyResourceWatcher_Next D w s
                :: (panic + ('ev option \<times> 'o option \<times> 'x error option)) \<times> call list \<times> 's))"
  using assms by (simp add: ThirdPartyResourceWatcher_Next_def calls_def)

text \<open>The third party watcher on the sample stream, beside a decoder that would fail.\<close>

theorem ThirdPartyResourceWatcher_Next_returns_nil_object_witness:
  "ThirdPartyResourceWatcher_Next undecodable_deps \<lparr>tw_watcher = 3\<rparr> 5
     = (Inr (Some ''ADDED'', None :: string option, None), [next_call, Println_call [1, 2]], 6)
   \<and> \<not> list_ex is_decode
         (calls (ThirdPartyResourceWatcher_Next undecodable_deps \<lparr>tw_watcher = 3\<rparr> 5
            :: (panic + (string option \<times> string option \<times> string error option)) \<times> call list \<times> nat))"
proof -
  have n: "watcher_next undecodable_deps (tw_watcher \<lparr>tw_watcher = 3\<rparr>) 5
             = ((Some ''ADDED'', Some \<lparr>Raw = [1, 2]\<rparr>, None), 6)"
    by (simp add: undecodable_deps_def sample_next_def)
  from ThirdPartyResourceWatcher_Next_returns_nil_object [where 'o = string, OF n] show ?thesis by simp
qed

text \<open>
  Claim C8. When the underlying \<open>next\<close> returns an error, \<open>Next\<close> of either adapter
  returns nil, nil and that same error; \<open>next\<close> is the only outside call, so nothing is
  decoded or printed.
\<close>

theorem Next_returns_the_stream_error:
  "(watcher_next D (aw_watcher w) s = ((event, unknown, Some e), s')
      \<longrightarrow> APIWatcher_Next D w s = (Inr (None, None, Some e), [next_call], s'))
   \<and> (watcher_next D (tw_watcher tw) s = ((event, unknown, Some e), s')
      \<longrightarrow> ThirdPartyResourceWatcher_Next D tw s
            = (Inr (None, None :: 'o option, Some e), [next_call], s'))"
  by (simp add: APIWatcher_Next_def ThirdPartyResourceWatcher_Next_def)

text \<open>Both adapters on the ended stream.\<close>

theorem Next_returns_the_stream_error_witness:
  "APIWatcher_Next broken_deps \<lparr>aw_watcher = 7\<rparr> 0
     = (Inr (None, None, Some (foreign ''EOF'')), [next_call], 1)
   \<and> ThirdPartyResourceWatcher_Next broken_deps \<lparr>tw_watcher = 7\<rparr> 0
     = (Inr (None, None :: string option, Some (foreign ''EOF'')), [next_call], 1)"
  using Next_returns_the_stream_error
    [where 'o = string, of broken_deps "\<lparr>aw_watcher = 7\<rparr>" 0 None None "foreign ''EOF''" 1 "\<lparr>tw_watcher = 7\<rparr>"]
  by (simp add: broken_deps_def broken_next_def)

text \<open>
  Claim C9. \<open>Close\<close> of either adapter returns what the wrapped watcher's \<open>Close\<close>
  returns and leaves the state that call leaves; that call is its only outside call.
\<close>

theorem Close_delegates:
  "returned (APIWatcher_Close D w s) = fst (watcher_Close D (aw_watcher w) s)
   \<and> state_after (APIWatcher_Close D w s) = snd (watcher_Close D (aw_watcher w) s)
   \<and> calls (APIWatcher_Close D w s) = [Close_call]
   \<and> returned (ThirdPartyResourceWatcher_Close D tw s) = fst (watcher_Close D (tw_watcher tw) s)
   \<and> state_after (ThirdPartyResourceWatcher_Close D tw s) = snd (watcher_Close D (tw_watcher tw) s)
   \<and> calls (ThirdPartyResourceWatcher_Close D tw s) = [Close_call]"
  by (simp add: APIWatcher_Close_def ThirdPartyResourceWatcher_Close_def
      returned_def state_after_def calls_def split: prod.split)

text \<open>Both adapters closed on the sample server.\<close>

theorem Close_delegates_witness:
  "APIWatcher_Close sample_deps \<lparr>aw_watcher = 7\<rparr> 2 = (None, [Close_call], 3)
   \<and> ThirdPartyResourceWatcher_Close sample_deps \<lparr>tw_watcher = 7\<rparr> 2 = (None, [Close_call], 3)"
  using Close_delegates [of sample_deps "\<lparr>aw_watcher = 7\<rparr>" 2 "\<lparr>tw_watcher = 7\<rparr>"]
  by (simp add: sample_deps_def sample_Close_def returned_def state_after_def calls_def prod_eq_iff)

text \<open>
  Claim C10. \<open>Discovery.APIWatch\<close> validates nothing: for every group name and version,
  empty ones included, it makes exactly one outside call, the watch-open on the path it
  built; the error it returns is the error of that call, and it returns a watcher exactly
  when that error is nil.
\<close>

theorem APIWatch_does_not_validate:
  "calls (Discovery_APIWatch D d ctx groupName groupVersion s)
     = [watch_call (urlForPath (client d) (path_Join D [''apis'', groupName, groupVersion]))]
   \<and> snd (returned (Discovery_APIWatch D d ctx groupName groupVersion s))
     = snd (fst (watch (client d) ctx
          (urlForPath (client d) (path_Join D [''apis'', groupName, groupVersion])) s))
   \<and> state_after (Discovery_APIWatch D d ctx groupName groupVersion s)
     = snd (watch (client d) ctx
          (urlForPath (client d) (path_Join D [''apis'', groupName, groupVersion])) s)
   \<and> fst (returned (Discovery_APIWatch D d ctx groupName groupVersion s))
     = (case snd (fst (watch (client d) ctx
               (urlForPath (client d) (path_Join D [''apis'', groupName, groupVersion])) s)) of
          Some e \<Rightarrow> None
        | None \<Rightarrow> Some \<lparr>aw_watcher = fst (fst (watch (client d) ctx
               (urlForPath (client d) (path_Join D [''apis'', groupName, groupVersion])) s))\<rparr>)"
  by (simp add: Discovery_APIWatch_def returned_def state_after_def calls_def Let_def
      split: prod.split option.split)

text \<open>The watch opened with an empty group name and an empty version.\<close>

theorem APIWatch_does_not_validate_witness:
  "Discovery_APIWatch sample_deps
       (sample_Discovery :: (unit, string, string, nat, nat, string) Discovery) () [] [] 0
     = ((Some \<lparr>aw_watcher = 7\<rparr>, None), [watch_call ''/apis''], 1)"
  using APIWatch_does_not_validate
    [of sample_deps "sample_Discovery :: (unit, string, string, nat, nat, string) Discovery" "()" "[]" "[]" 0]
  by (simp add: sample_deps_def sample_Discovery_def sample_Client_def sample_urlForPath_def
      sample_watch_def returned_def state_after_def calls_def prod_eq_iff)

end
